theory Spec2Isabelle
  imports Main
begin

section \<open>Values that cross the HTTP boundary\<close>

text \<open>
  Request bodies are JSON documents. A JavaScript string is modelled as a \<open>string\<close>
  whose characters stand for code units below 256; numbers are never inspected by the
  routes beyond their kind. An object keeps its members in the order they were written,
  and the last member of a given name wins, as in \<^verbatim>\<open>JSON.parse\<close>.
\<close>

datatype json =
    JNull
  | JBool bool
  | JNum int
  | JStr string
  | JArr "json list"
  | JObj "(string \<times> json) list"

text \<open>A TypeScript value of type \<^verbatim>\<open>T | null | undefined\<close>.\<close>

datatype 'a maybe = Undefined | Null | Val 'a

type_synonym timestamp = nat

definition field :: "string \<Rightarrow> (string \<times> json) list \<Rightarrow> json option" where
  "field k kvs = map_of (rev kvs) k"

text \<open>JavaScript truthiness of an optional string: \<^verbatim>\<open>undefined\<close>, \<^verbatim>\<open>null\<close> and \<^verbatim>\<open>""\<close> are falsy.\<close>

fun truthy :: "string maybe \<Rightarrow> bool" where
  "truthy (Val s) = (s \<noteq> [])"
| "truthy _ = False"

text \<open>\<^verbatim>\<open>x || null\<close> on an optional string.\<close>

fun orNull :: "string maybe \<Rightarrow> string option" where
  "orNull (Val s) = (if s = [] then None else Some s)"
| "orNull _ = None"

text \<open>\<^verbatim>\<open>x || null\<close> on an optional array: every array is truthy, the empty one too.\<close>

fun orNullArr :: "'a list maybe \<Rightarrow> 'a list option" where
  "orNullArr (Val xs) = Some xs"
| "orNullArr _ = None"

section \<open>The zod combinators the schemas use\<close>

text \<open>
  A schema takes the member of the object (\<open>None\<close> when the key is absent, which is
  \<^verbatim>\<open>undefined\<close>) and yields \<open>None\<close> where zod raises \<^verbatim>\<open>ZodError\<close>.
\<close>

fun zString :: "json option \<Rightarrow> string option" where
  "zString (Some (JStr s)) = Some s"
| "zString _ = None"

definition zStringMin :: "nat \<Rightarrow> json option \<Rightarrow> string option" where
  "zStringMin n j = (case zString j of
       None \<Rightarrow> None
     | Some s \<Rightarrow> (if n \<le> length s then Some s else None))"

definition zEnum :: "string list \<Rightarrow> json option \<Rightarrow> string option" where
  "zEnum vs j = (case zString j of
       None \<Rightarrow> None
     | Some s \<Rightarrow> (if s \<in> set vs then Some s else None))"

text \<open>\<^verbatim>\<open>z.string().optional().nullable()\<close>\<close>

fun zStringOptionalNullable :: "json option \<Rightarrow> string maybe option" where
  "zStringOptionalNullable None = Some Undefined"
| "zStringOptionalNullable (Some JNull) = Some Null"
| "zStringOptionalNullable (Some (JStr s)) = Some (Val s)"
| "zStringOptionalNullable (Some _) = None"

text \<open>\<^verbatim>\<open>z.string().optional()\<close>, as the client forms use it.\<close>

fun zStringOptional :: "json option \<Rightarrow> string option option" where
  "zStringOptional None = Some None"
| "zStringOptional (Some (JStr s)) = Some (Some s)"
| "zStringOptional (Some _) = None"

section \<open>The data model of schema.ts\<close>

datatype status = Pending | UnderReview | Approved | Rejected | Paid

datatype country = UK | USA

definition applicationStatusEnum :: "(string \<times> status) list" where
  "applicationStatusEnum =
     [(''pending'', Pending), (''under_review'', UnderReview), (''approved'', Approved),
      (''rejected'', Rejected), (''paid'', Paid)]"

definition countryEnum :: "(string \<times> country) list" where
  "countryEnum = [(''UK'', UK), (''USA'', USA)]"

fun statusName :: "status \<Rightarrow> string" where
  "statusName Pending = ''pending''"
| "statusName UnderReview = ''under_review''"
| "statusName Approved = ''approved''"
| "statusName Rejected = ''rejected''"
| "statusName Paid = ''paid''"

text \<open>A row of the table \<^verbatim>\<open>bank_details\<close>.\<close>

record BankDetails =
  id_bd :: string
  userId_bd :: string
  country_bd :: country
  bankName :: string
  accountNumber :: string
  sortCode :: "string option"
  routingNumber :: "string option"
  accountHolderName :: "string option"
  isVerified :: string
  createdAt_bd :: "timestamp option"
  updatedAt_bd :: "timestamp option"

text \<open>A row of the table \<^verbatim>\<open>applications\<close>.\<close>

record Application =
  id_app :: string
  userId :: string
  bankDetailsId :: "string option"
  reason :: string
  amountRequested :: string
  currency :: string
  supportingDocuments :: "string list option"
  status :: status
  adminNotes :: "string option"
  reviewedBy :: "string option"
  reviewedAt :: "timestamp option"
  paidAt :: "timestamp option"
  paidAmount :: "string option"
  createdAt :: "timestamp option"
  updatedAt :: "timestamp option"

text \<open>
  \<^verbatim>\<open>Partial<Application>\<close>: every field may be absent; a nullable column may also be
  handed \<^verbatim>\<open>null\<close>.
\<close>

record PartialApplication =
  id_upd :: "string option"
  userId_upd :: "string option"
  bankDetailsId_upd :: "string maybe"
  reason_upd :: "string option"
  amountRequested_upd :: "string option"
  currency_upd :: "string option"
  supportingDocuments_upd :: "string list maybe"
  status_upd :: "status option"
  adminNotes_upd :: "string maybe"
  reviewedBy_upd :: "string maybe"
  reviewedAt_upd :: "timestamp maybe"
  paidAt_upd :: "timestamp maybe"
  paidAmount_upd :: "string maybe"
  createdAt_upd :: "timestamp maybe"
  updatedAt_upd :: "timestamp maybe"

definition noFields :: PartialApplication where
  "noFields = \<lparr> id_upd = None, userId_upd = None, bankDetailsId_upd = Undefined,
     reason_upd = None, amountRequested_upd = None, currency_upd = None,
     supportingDocuments_upd = Undefined, status_upd = None, adminNotes_upd = Undefined,
     reviewedBy_upd = Undefined, reviewedAt_upd = Undefined, paidAt_upd = Undefined,
     paidAmount_upd = Undefined, createdAt_upd = Undefined, updatedAt_upd = Undefined \<rparr>"

text \<open>
  The database: the two tables the routes below write. Rows are kept in insertion order.
  The table \<^verbatim>\<open>users\<close> belongs to the identity provider's integration; the caller
  of a route is the principal of an authenticated session and is taken to name a row
  there, so the references from \<^verbatim>\<open>user_id\<close> and \<^verbatim>\<open>reviewed_by\<close> always resolve.
\<close>

record state =
  applications :: "Application list"
  bankDetails :: "BankDetails list"

definition emptyState :: state where
  "emptyState = \<lparr> applications = [], bankDetails = [] \<rparr>"

section \<open>What the columns accept\<close>

text \<open>
  A \<^verbatim>\<open>varchar\<close> or \<^verbatim>\<open>text\<close> column holds no code unit 0: the database refuses a
  statement that writes a text with one.
\<close>

definition pgText :: "string \<Rightarrow> bool" where
  "pgText v = (CHR 0x00 \<notin> set v)"

fun pgOption :: "string option \<Rightarrow> bool" where
  "pgOption None = True"
| "pgOption (Some v) = pgText v"

fun pgMaybe :: "string maybe \<Rightarrow> bool" where
  "pgMaybe (Val v) = pgText v"
| "pgMaybe _ = True"

text \<open>
  A \<^verbatim>\<open>decimal(10, 2)\<close> column stores the amount it is handed in its own form, with two
  decimals, or refuses the text (bad syntax, too many digits). That is the arithmetic of
  the database: the storage operations take it as the function \<open>decimal\<close>, which gives
  the text stored, and \<open>None\<close> where the column refuses.
\<close>

type_synonym decimalColumn = "string \<Rightarrow> string option"

section \<open>storage.ts\<close>

text \<open>
  A storage operation that the database refuses throws; the model returns \<open>None\<close> then,
  and the database is as it was. The fresh primary key (\<^verbatim>\<open>gen_random_uuid()\<close>) and
  the readings of the clock are inputs of the operation.
\<close>

definition getBankDetailsById :: "string \<Rightarrow> state \<Rightarrow> BankDetails option" where
  "getBankDetailsById i s = find (\<lambda>b. id_bd b = i) (bankDetails s)"

definition createBankDetails ::
  "string \<Rightarrow> timestamp \<Rightarrow> string \<Rightarrow> country \<Rightarrow> string \<Rightarrow> string \<Rightarrow>
   string maybe \<Rightarrow> string maybe \<Rightarrow> string maybe \<Rightarrow> state \<Rightarrow> (BankDetails \<times> state) option" where
  "createBankDetails newId now uid c bn an sc rn ahn s =
     (if newId \<in> id_bd ` set (bankDetails s) then None
      else if \<not> (pgText uid \<and> pgText bn \<and> pgText an \<and> pgOption (orNull sc) \<and>
                  pgOption (orNull rn) \<and> pgOption (orNull ahn)) then None
      else
        let created = \<lparr> id_bd = newId, userId_bd = uid, country_bd = c, bankName = bn,
              accountNumber = an, sortCode = orNull sc, routingNumber = orNull rn,
              accountHolderName = orNull ahn,
              isVerified = (if truthy ahn then ''verified'' else ''pending''),
              createdAt_bd = Some now, updatedAt_bd = Some now \<rparr>
        in Some (created, s\<lparr> bankDetails := bankDetails s @ [created] \<rparr>))"

text \<open>
  The delete names both the id and the owner. A row that an application still references
  cannot be deleted (\<^verbatim>\<open>bank_details_id\<close> references \<^verbatim>\<open>bank_details.id\<close>): the
  statement fails then.
\<close>

definition deleteBankDetails :: "string \<Rightarrow> string \<Rightarrow> state \<Rightarrow> (bool \<times> state) option" where
  "deleteBankDetails i uid s =
     (let hit = (\<lambda>b. id_bd b = i \<and> userId_bd b = uid) in
      if (\<exists>b \<in> set (bankDetails s). hit b) \<and>
         (\<exists>a \<in> set (applications s). bankDetailsId a = Some i)
      then None
      else Some (True, s\<lparr> bankDetails := filter (\<lambda>b. \<not> hit b) (bankDetails s) \<rparr>))"

definition getApplicationById :: "string \<Rightarrow> state \<Rightarrow> Application option" where
  "getApplicationById i s = find (\<lambda>a. id_app a = i) (applications s)"

text \<open>
  The insert is refused for a key that is taken, for a text the columns do not hold, for
  a \<^verbatim>\<open>bank_details_id\<close> that no row of \<^verbatim>\<open>bank_details\<close> has, and for an amount the
  decimal column refuses. The amount stored is the column's form of the one handed in.
\<close>

definition createApplication ::
  "decimalColumn \<Rightarrow> string \<Rightarrow> timestamp \<Rightarrow> string \<Rightarrow> string \<Rightarrow> string \<Rightarrow> string \<Rightarrow>
   string maybe \<Rightarrow> string list maybe \<Rightarrow> state \<Rightarrow> (Application \<times> state) option" where
  "createApplication decimal newId now uid r amt cur bid docs s =
     (if newId \<in> id_app ` set (applications s) then None
      else if \<not> (pgText uid \<and> pgText r \<and> pgText cur \<and> pgOption (orNull bid) \<and>
                  (case orNullArr docs of None \<Rightarrow> True | Some ds \<Rightarrow> list_all pgText ds))
      then None
      else if (case orNull bid of
                 None \<Rightarrow> False
               | Some b \<Rightarrow> b \<notin> id_bd ` set (bankDetails s)) then None
      else
        (case decimal amt of
           None \<Rightarrow> None
         | Some stored \<Rightarrow>
             let created = \<lparr> id_app = newId, userId = uid, bankDetailsId = orNull bid,
                   reason = r, amountRequested = stored, currency = cur,
                   supportingDocuments = orNullArr docs, status = Pending, adminNotes = None,
                   reviewedBy = None, reviewedAt = None, paidAt = None, paidAmount = None,
                   createdAt = Some now, updatedAt = Some now \<rparr>
             in Some (created, s\<lparr> applications := applications s @ [created] \<rparr>)))"

text \<open>What \<^verbatim>\<open>set\<close> does to a nullable column for one member of the update object.\<close>

fun assign :: "'a maybe \<Rightarrow> 'a option \<Rightarrow> 'a option" where
  "assign Undefined old = old"
| "assign Null old = None"
| "assign (Val v) old = Some v"

definition applyUpdate :: "timestamp \<Rightarrow> PartialApplication \<Rightarrow> Application \<Rightarrow> Application" where
  "applyUpdate now d a =
     a\<lparr> updatedAt := Some now,
        status := (case status_upd d of None \<Rightarrow> status a | Some v \<Rightarrow> v),
        adminNotes := assign (adminNotes_upd d) (adminNotes a),
        reviewedBy := assign (reviewedBy_upd d) (reviewedBy a),
        reviewedAt := assign (reviewedAt_upd d) (reviewedAt a),
        paidAt := assign (paidAt_upd d) (paidAt a),
        paidAmount := assign (paidAmount_upd d) (paidAmount a) \<rparr>"

text \<open>
  The values of the update as the columns take them: \<open>None\<close> where the database refuses
  the statement (a text with code unit 0 for \<^verbatim>\<open>admin_notes\<close> or \<^verbatim>\<open>reviewed_by\<close>, an
  amount the decimal column refuses), and else the update with the paid amount in the
  column's form. The values are bound before any row is looked at, so the refusal does
  not depend on the rows.
\<close>

definition columnValues :: "decimalColumn \<Rightarrow> PartialApplication \<Rightarrow> PartialApplication option" where
  "columnValues decimal d =
     (if \<not> (pgMaybe (adminNotes_upd d) \<and> pgMaybe (reviewedBy_upd d)) then None
      else (case paidAmount_upd d of
              Val v \<Rightarrow>
                (case decimal v of
                   None \<Rightarrow> None
                 | Some stored \<Rightarrow> Some (d\<lparr> paidAmount_upd := Val stored \<rparr>))
            | _ \<Rightarrow> Some d))"

definition updateApplication ::
  "decimalColumn \<Rightarrow> timestamp \<Rightarrow> string \<Rightarrow> PartialApplication \<Rightarrow> state \<Rightarrow>
   (Application option \<times> state) option" where
  "updateApplication decimal now i d s =
     (case columnValues decimal d of
        None \<Rightarrow> None
      | Some written \<Rightarrow>
          let rows = map (\<lambda>a. if id_app a = i then applyUpdate now written a else a)
                       (applications s)
          in Some (find (\<lambda>a. id_app a = i) rows, s\<lparr> applications := rows \<rparr>))"

text \<open>The database after a storage operation: as it was where the operation throws.\<close>

definition after :: "state \<Rightarrow> ('a \<times> state) option \<Rightarrow> state" where
  "after s r = (case r of None \<Rightarrow> s | Some (x, s') \<Rightarrow> s')"

section \<open>The validation schemas of the routes\<close>

record BankDetailsInput =
  country_in :: country
  bankName_in :: string
  accountNumber_in :: string
  sortCode_in :: "string maybe"
  routingNumber_in :: "string maybe"
  accountHolderName_in :: "string maybe"

record ApplicationInput =
  reason_in :: string
  amountRequested_in :: string
  currency_in :: string
  bankDetailsId_in :: "string maybe"

definition zCountry :: "json option \<Rightarrow> country option" where
  "zCountry j = (case zString j of None \<Rightarrow> None | Some s \<Rightarrow> map_of countryEnum s)"

definition zStatus :: "json option \<Rightarrow> status option" where
  "zStatus j = (case zString j of None \<Rightarrow> None | Some s \<Rightarrow> map_of applicationStatusEnum s)"

definition bankDetailsSchema :: "json \<Rightarrow> BankDetailsInput option" where
  "bankDetailsSchema body = (case body of
       JObj kvs \<Rightarrow>
         (case zCountry (field ''country'' kvs) of None \<Rightarrow> None | Some c \<Rightarrow>
         (case zStringMin 2 (field ''bankName'' kvs) of None \<Rightarrow> None | Some bn \<Rightarrow>
         (case zStringMin 6 (field ''accountNumber'' kvs) of None \<Rightarrow> None | Some an \<Rightarrow>
         (case zStringOptionalNullable (field ''sortCode'' kvs) of None \<Rightarrow> None | Some sc \<Rightarrow>
         (case zStringOptionalNullable (field ''routingNumber'' kvs) of None \<Rightarrow> None | Some rn \<Rightarrow>
         (case zStringOptionalNullable (field ''accountHolderName'' kvs) of None \<Rightarrow> None | Some ahn \<Rightarrow>
            Some \<lparr> country_in = c, bankName_in = bn, accountNumber_in = an, sortCode_in = sc,
                   routingNumber_in = rn, accountHolderName_in = ahn \<rparr>))))))
     | _ \<Rightarrow> None)"

text \<open>
  The amount is refined by \<^verbatim>\<open>!isNaN(parseFloat(val)) && parseFloat(val) > 0\<close>, a test
  on a floating-point number: the schema takes it as the predicate \<open>positive\<close>.
\<close>

definition applicationSchema :: "(string \<Rightarrow> bool) \<Rightarrow> json \<Rightarrow> ApplicationInput option" where
  "applicationSchema positive body = (case body of
       JObj kvs \<Rightarrow>
         (case zStringMin 20 (field ''reason'' kvs) of None \<Rightarrow> None | Some r \<Rightarrow>
         (case zString (field ''amountRequested'' kvs) of None \<Rightarrow> None | Some amt \<Rightarrow>
         if \<not> positive amt then None else
         (case zEnum [''GBP'', ''USD''] (field ''currency'' kvs) of None \<Rightarrow> None | Some cur \<Rightarrow>
         (case zStringOptionalNullable (field ''bankDetailsId'' kvs) of None \<Rightarrow> None | Some bid \<Rightarrow>
            Some \<lparr> reason_in = r, amountRequested_in = amt, currency_in = cur,
                   bankDetailsId_in = bid \<rparr>))))
     | _ \<Rightarrow> None)"

definition applicationSubmitSchema ::
  "(string \<Rightarrow> bool) \<Rightarrow> json \<Rightarrow> (ApplicationInput \<times> BankDetailsInput option) option" where
  "applicationSubmitSchema positive body = (case body of
       JObj kvs \<Rightarrow>
         (case field ''application'' kvs of None \<Rightarrow> None | Some aj \<Rightarrow>
         (case applicationSchema positive aj of None \<Rightarrow> None | Some appData \<Rightarrow>
         (case field ''bankDetails'' kvs of
            None \<Rightarrow> Some (appData, None)
          | Some bj \<Rightarrow>
              (case bankDetailsSchema bj of None \<Rightarrow> None
               | Some bankData \<Rightarrow> Some (appData, Some bankData)))))
     | _ \<Rightarrow> None)"

definition updateApplicationSchema :: "json \<Rightarrow> (status option \<times> string maybe) option" where
  "updateApplicationSchema body = (case body of
       JObj kvs \<Rightarrow>
         (case (case field ''status'' kvs of
                  None \<Rightarrow> Some None
                | Some j \<Rightarrow> map_option Some (zStatus (Some j))) of
            None \<Rightarrow> None
          | Some st \<Rightarrow>
              (case zStringOptionalNullable (field ''adminNotes'' kvs) of None \<Rightarrow> None
               | Some notes \<Rightarrow> Some (st, notes)))
     | _ \<Rightarrow> None)"

section \<open>The routes\<close>

datatype payload =
    PApplication Application
  | PBankDetails BankDetails
  | PSuccess
  | PMessage string
  | PInvalid
  | PEmpty

type_synonym response = "nat \<times> payload"

text \<open>
  Every route below is registered behind \<^verbatim>\<open>isAuthenticated\<close>; \<open>uid\<close> is
  \<^verbatim>\<open>req.user.claims.sub\<close> of the session, \<open>i\<close> the \<^verbatim>\<open>:id\<close> of the path and
  \<open>body\<close> the parsed JSON body. A route answers with a status code and a payload and
  returns the database as it leaves it.
\<close>

text \<open>\<^verbatim>\<open>POST /api/bank-details\<close>\<close>

definition post_bank_details ::
  "string \<Rightarrow> timestamp \<Rightarrow> string \<Rightarrow> json \<Rightarrow> state \<Rightarrow> response \<times> state" where
  "post_bank_details newId now uid body s =
     (case bankDetailsSchema body of
        None \<Rightarrow> ((400, PInvalid), s)
      | Some d \<Rightarrow>
          (case createBankDetails newId now uid (country_in d) (bankName_in d)
                  (accountNumber_in d) (sortCode_in d) (routingNumber_in d)
                  (accountHolderName_in d) s of
             None \<Rightarrow> ((500, PMessage ''Failed to create bank details''), s)
           | Some (details, s') \<Rightarrow> ((200, PBankDetails details), s')))"

text \<open>\<^verbatim>\<open>DELETE /api/bank-details/:id\<close>\<close>

definition delete_bank_details :: "string \<Rightarrow> string \<Rightarrow> state \<Rightarrow> response \<times> state" where
  "delete_bank_details uid i s =
     (case getBankDetailsById i s of
        None \<Rightarrow> ((404, PMessage ''Bank details not found''), s)
      | Some existing \<Rightarrow>
          if userId_bd existing \<noteq> uid then ((403, PMessage ''Access denied''), s)
          else
            (case deleteBankDetails i uid s of
               None \<Rightarrow> ((500, PMessage ''Failed to delete bank details''), s)
             | Some (ok, s') \<Rightarrow> ((200, PSuccess), s')))"

text \<open>
  \<^verbatim>\<open>POST /api/applications\<close>. The two inserts are two statements: when the second one
  fails, the bank details the first one wrote stay.
\<close>

definition post_applications ::
  "(string \<Rightarrow> bool) \<Rightarrow> decimalColumn \<Rightarrow> string \<Rightarrow> timestamp \<Rightarrow> string \<Rightarrow> timestamp \<Rightarrow>
   string \<Rightarrow> json \<Rightarrow> state \<Rightarrow> response \<times> state" where
  "post_applications positive decimal newBankId tBank newAppId tApp uid body s =
     (case applicationSubmitSchema positive body of
        None \<Rightarrow> ((400, PInvalid), s)
      | Some (appData, bankData) \<Rightarrow>
          let create = (\<lambda>bankDetailsId st.
                case createApplication decimal newAppId tApp uid (reason_in appData)
                       (amountRequested_in appData) (currency_in appData) bankDetailsId
                       Undefined st of
                  None \<Rightarrow> ((500, PMessage ''Failed to create application''), st)
                | Some (application, s') \<Rightarrow> ((200, PApplication application), s'))
          in
          (case bankData of
             Some b \<Rightarrow>
               (case createBankDetails newBankId tBank uid (country_in b) (bankName_in b)
                       (accountNumber_in b) (sortCode_in b) (routingNumber_in b)
                       (accountHolderName_in b) s of
                  None \<Rightarrow> ((500, PMessage ''Failed to create application''), s)
                | Some (details, s1) \<Rightarrow> create (Val (id_bd details)) s1)
           | None \<Rightarrow>
               (case bankDetailsId_in appData of
                  Val bid \<Rightarrow>
                    if bid \<noteq> [] then
                      (case getBankDetailsById bid s of
                         None \<Rightarrow> ((403, PMessage ''Invalid bank details''), s)
                       | Some existing \<Rightarrow>
                           if userId_bd existing \<noteq> uid
                           then ((403, PMessage ''Invalid bank details''), s)
                           else create (Val bid) s)
                    else create Null s
                | _ \<Rightarrow> create Null s)))"

text \<open>
  \<^verbatim>\<open>PATCH /api/admin/applications/:id\<close>. The route reads the clock for
  \<^verbatim>\<open>reviewedAt\<close> and for \<^verbatim>\<open>paidAt\<close>, the storage for \<^verbatim>\<open>updatedAt\<close>.
  \<open>updateData\<close> is the object of that name which the route assembles.
\<close>

definition updateData ::
  "timestamp \<Rightarrow> timestamp \<Rightarrow> string \<Rightarrow> status option \<Rightarrow> string maybe \<Rightarrow> Application \<Rightarrow>
   PartialApplication" where
  "updateData tReviewed tPaid adminUserId st notes existingApp =
     (let d0 = noFields\<lparr> reviewedBy_upd := Val adminUserId, reviewedAt_upd := Val tReviewed \<rparr>;
          d1 = (case st of None \<Rightarrow> d0 | Some v \<Rightarrow> d0\<lparr> status_upd := Some v \<rparr>);
          d2 = (if notes \<noteq> Undefined then d1\<lparr> adminNotes_upd := notes \<rparr> else d1)
      in if st = Some Paid
         then d2\<lparr> paidAt_upd := Val tPaid, paidAmount_upd := Val (amountRequested existingApp) \<rparr>
         else d2)"

definition patch_admin_application ::
  "decimalColumn \<Rightarrow> timestamp \<Rightarrow> timestamp \<Rightarrow> timestamp \<Rightarrow> string \<Rightarrow> string \<Rightarrow> json \<Rightarrow>
   state \<Rightarrow> response \<times> state" where
  "patch_admin_application decimal tReviewed tPaid tUpdated adminUserId i body s =
     (case updateApplicationSchema body of
        None \<Rightarrow> ((400, PInvalid), s)
      | Some (st, notes) \<Rightarrow>
          (case getApplicationById i s of
             None \<Rightarrow> ((404, PMessage ''Application not found''), s)
           | Some existingApp \<Rightarrow>
               (case updateApplication decimal tUpdated i
                       (updateData tReviewed tPaid adminUserId st notes existingApp) s of
                  None \<Rightarrow> ((500, PMessage ''Failed to update application''), s)
                | Some (application, s') \<Rightarrow>
                    ((200, (case application of None \<Rightarrow> PEmpty | Some a \<Rightarrow> PApplication a)),
                     s'))))"

section \<open>The admin dashboard\<close>

record User =
  id_user :: string
  email :: "string option"
  firstName :: "string option"
  lastName :: "string option"

record ApplicationWithUser = Application +
  user :: "User option"
  joinedBankDetails :: "BankDetails option"

text \<open>\<^verbatim>\<open>String.prototype.toLowerCase\<close> on code units below 256.\<close>

definition lowerChar :: "char \<Rightarrow> char" where
  "lowerChar c =
     (let n = (of_char c :: nat) in
      if (65 \<le> n \<and> n \<le> 90) \<or> (192 \<le> n \<and> n \<le> 214) \<or> (216 \<le> n \<and> n \<le> 222)
      then char_of (n + 32) else c)"

definition toLowerCase :: "string \<Rightarrow> string" where
  "toLowerCase s = map lowerChar s"

fun includesStr :: "string \<Rightarrow> string \<Rightarrow> bool" where
  "includesStr [] q = (q = [])"
| "includesStr (c # cs) q = (take (length q) (c # cs) = q \<or> includesStr cs q)"

text \<open>How a template literal prints an optional name.\<close>

definition interpolate :: "User option \<Rightarrow> (User \<Rightarrow> string option) \<Rightarrow> string" where
  "interpolate u f = (case u of
       None \<Rightarrow> ''undefined''
     | Some v \<Rightarrow> (case f v of None \<Rightarrow> ''null'' | Some s \<Rightarrow> s))"

definition matchesSearch :: "string \<Rightarrow> ApplicationWithUser \<Rightarrow> bool" where
  "matchesSearch searchQuery app =
     (includesStr (toLowerCase (reason app)) (toLowerCase searchQuery) \<or>
      (case user app of
         None \<Rightarrow> False
       | Some u \<Rightarrow>
           (case email u of
              None \<Rightarrow> False
            | Some e \<Rightarrow> includesStr (toLowerCase e) (toLowerCase searchQuery))) \<or>
      includesStr
        (toLowerCase (interpolate (user app) firstName @ '' '' @ interpolate (user app) lastName))
        (toLowerCase searchQuery))"

definition matchesStatus :: "string \<Rightarrow> ApplicationWithUser \<Rightarrow> bool" where
  "matchesStatus statusFilter app =
     (statusFilter = ''all'' \<or> statusName (status app) = statusFilter)"

definition filteredApplications ::
  "ApplicationWithUser list option \<Rightarrow> string \<Rightarrow> string \<Rightarrow> ApplicationWithUser list option" where
  "filteredApplications apps searchQuery statusFilter =
     map_option (filter (\<lambda>app. matchesSearch searchQuery app \<and> matchesStatus statusFilter app))
       apps"

record Stats =
  total :: nat
  pending :: nat
  underReview :: nat
  approved :: nat

definition countWhere :: "ApplicationWithUser list option \<Rightarrow> (ApplicationWithUser \<Rightarrow> bool) \<Rightarrow> nat" where
  "countWhere apps p = (case apps of None \<Rightarrow> 0 | Some xs \<Rightarrow> length (filter p xs))"

definition stats :: "ApplicationWithUser list option \<Rightarrow> Stats" where
  "stats apps =
     \<lparr> total = (case apps of None \<Rightarrow> 0 | Some xs \<Rightarrow> length xs),
       pending = countWhere apps (\<lambda>a. status a = Pending),
       underReview = countWhere apps (\<lambda>a. status a = UnderReview),
       approved = countWhere apps (\<lambda>a. status a = Approved \<or> status a = Paid) \<rparr>"

section \<open>The bank form of the application page\<close>

text \<open>
  The schema of apply.tsx, which the form runs when the account is verified: the object
  part, then the refinement on the country.
\<close>

definition applyBankRefine :: "string \<Rightarrow> string option \<Rightarrow> string option \<Rightarrow> bool" where
  "applyBankRefine c sc rn =
     (if c = ''UK'' then (case sc of None \<Rightarrow> False | Some v \<Rightarrow> v \<noteq> [] \<and> 6 \<le> length v)
      else if c = ''USA'' then (case rn of None \<Rightarrow> False | Some v \<Rightarrow> v \<noteq> [] \<and> 9 \<le> length v)
      else True)"

definition applyBankDetailsSchema :: "json \<Rightarrow> bool" where
  "applyBankDetailsSchema form = (case form of
       JObj kvs \<Rightarrow>
         (case zEnum [''UK'', ''USA''] (field ''country'' kvs) of None \<Rightarrow> False | Some c \<Rightarrow>
         (case zStringMin 2 (field ''bankName'' kvs) of None \<Rightarrow> False | Some bn \<Rightarrow>
         (case zStringMin 6 (field ''accountNumber'' kvs) of None \<Rightarrow> False | Some an \<Rightarrow>
         (case zStringOptional (field ''sortCode'' kvs) of None \<Rightarrow> False | Some sc \<Rightarrow>
         (case zStringOptional (field ''routingNumber'' kvs) of None \<Rightarrow> False | Some rn \<Rightarrow>
            applyBankRefine c sc rn)))))
     | _ \<Rightarrow> False)"

section \<open>The states the routes can reach\<close>

text \<open>
  From the empty database, one request at a time, by the four routes that write the two
  tables; the caller, the body, the fresh key and the clock readings are arbitrary.
\<close>

inductive reachable :: "(string \<Rightarrow> bool) \<Rightarrow> decimalColumn \<Rightarrow> state \<Rightarrow> bool"
  for positive and decimal where
  initial: "reachable positive decimal emptyState"
| bank_created:
    "reachable positive decimal s \<Longrightarrow>
     reachable positive decimal (snd (post_bank_details newId now uid body s))"
| bank_deleted:
    "reachable positive decimal s \<Longrightarrow>
     reachable positive decimal (snd (delete_bank_details uid i s))"
| application_created:
    "reachable positive decimal s \<Longrightarrow>
     reachable positive decimal
       (snd (post_applications positive decimal newBankId tBank newAppId tApp uid body s))"
| application_updated:
    "reachable positive decimal s \<Longrightarrow>
     reachable positive decimal
       (snd (patch_admin_application decimal tReviewed tPaid tUpdated adminUserId i body s))"

text \<open>The fields of an application that no update may touch.\<close>

definition frame ::
  "Application \<Rightarrow> string \<times> string \<times> string \<times> string \<times> string \<times> string option \<times>
     string list option \<times> timestamp option" where
  "frame a = (id_app a, userId a, reason a, amountRequested a, currency a, bankDetailsId a,
              supportingDocuments a, createdAt a)"

text \<open>The transition table of section 4.1 of the specification, as it is written there.\<close>

definition transitionTable :: "(status \<times> status) list" where
  "transitionTable =
     [(Pending, UnderReview), (Pending, Approved), (UnderReview, Approved),
      (Pending, Rejected), (UnderReview, Rejected), (Approved, Paid)]"

section \<open>Sample requests\<close>

text \<open>
  The examples below run the routes on these requests. \<open>sampleAmount\<close> stands for the
  refinement of the amount there (\<^verbatim>\<open>parseFloat\<close> of either text is positive) and
  \<open>sampleDecimal\<close> for the decimal column: it gives what the column stores for the
  amounts of the examples.
\<close>

definition sampleAmount :: "string \<Rightarrow> bool" where
  "sampleAmount v = (v = ''250.00'' \<or> v = ''500.00'')"

definition sampleDecimal :: decimalColumn where
  "sampleDecimal v =
     (if v = ''250.00'' \<or> v = ''250'' then Some ''250.00''
      else if v = ''500.00'' \<or> v = ''500'' then Some ''500.00''
      else None)"

definition sampleApplication :: "(string \<times> json) list" where
  "sampleApplication =
     [(''reason'', JStr ''Rent arrears after redundancy''),
      (''amountRequested'', JStr ''250.00''),
      (''currency'', JStr ''GBP'')]"

definition sampleRow :: Application where
  "sampleRow = \<lparr> id_app = ''a1'', userId = ''alice'', bankDetailsId = None,
     reason = ''Rent arrears after redundancy'', amountRequested = ''250.00'',
     currency = ''GBP'', supportingDocuments = None, status = Pending, adminNotes = None,
     reviewedBy = None, reviewedAt = None, paidAt = None, paidAmount = None,
     createdAt = Some 1, updatedAt = Some 1 \<rparr>"

definition sampleBank :: BankDetails where
  "sampleBank = \<lparr> id_bd = ''b1'', userId_bd = ''alice'', country_bd = UK,
     bankName = ''Barclays'', accountNumber = ''12345678'', sortCode = None,
     routingNumber = None, accountHolderName = None, isVerified = ''pending'',
     createdAt_bd = Some 1, updatedAt_bd = Some 1 \<rparr>"

definition statusBody :: "string \<Rightarrow> json" where
  "statusBody name = JObj [(''status'', JStr name)]"

definition created :: state where
  "created = snd (post_applications sampleAmount sampleDecimal ''b1'' 1 ''a1'' 1 ''alice''
                    (JObj [(''application'', JObj sampleApplication)]) emptyState)"

definition paidState :: state where
  "paidState =
     snd (patch_admin_application sampleDecimal 2 3 4 ''admin'' ''a1'' (statusBody ''paid'')
            created)"

definition paidRow :: Application where
  "paidRow = sampleRow\<lparr> status := Paid, reviewedBy := Some ''admin'', reviewedAt := Some 2,
     paidAt := Some 3, paidAmount := Some ''250.00'', updatedAt := Some 4 \<rparr>"

definition revertedState :: state where
  "revertedState =
     snd (patch_admin_application sampleDecimal 5 6 7 ''admin'' ''a1'' (statusBody ''approved'')
            paidState)"

definition stampedState :: state where
  "stampedState =
     snd (patch_admin_application sampleDecimal 2 3 4 ''admin'' ''a1'' (JObj []) created)"

text \<open>A request that marks the application paid and also tries to name the amount.\<close>

definition forgedPaidBody :: json where
  "forgedPaidBody = JObj [(''status'', JStr ''paid''), (''paidAmount'', JStr ''999.00'')]"

text \<open>A request whose notes hold code unit 0, which the database refuses.\<close>

definition refusedNotes :: string where
  "refusedNotes = [CHR ''n'', CHR 0x00]"

definition refusedBody :: "string \<Rightarrow> json" where
  "refusedBody name = JObj [(''status'', JStr name), (''adminNotes'', JStr refusedNotes)]"

text \<open>An update object that also names the owner.\<close>

definition hostileUpdate :: PartialApplication where
  "hostileUpdate = noFields\<lparr> userId_upd := Some ''mallory'', status_upd := Some Paid \<rparr>"

text \<open>A submission that carries a status, in the application and beside it.\<close>

definition statusSmuggledBody :: json where
  "statusSmuggledBody =
     JObj [(''application'', JObj (sampleApplication @ [(''status'', JStr ''paid'')])),
           (''status'', JStr ''approved'')]"

text \<open>A submission whose \<^verbatim>\<open>bankDetailsId\<close> is the empty string.\<close>

definition emptyIdBody :: json where
  "emptyIdBody =
     JObj [(''application'', JObj (sampleApplication @ [(''bankDetailsId'', JStr [])]))]"



text \<open>A British account with no sort code.\<close>

definition ukBody :: json where
  "ukBody = JObj [(''country'', JStr ''UK''), (''bankName'', JStr ''Barclays''),
                  (''accountNumber'', JStr ''12345678'')]"


text \<open>The row the admin listing assembles: \<^verbatim>\<open>{...app, user, bankDetails}\<close>.\<close>

definition withUser ::
  "Application \<Rightarrow> User option \<Rightarrow> BankDetails option \<Rightarrow> ApplicationWithUser" where
  "withUser app u b = Application.extend app (ApplicationWithUser.fields u b)"

definition dashboardRows :: "ApplicationWithUser list" where
  "dashboardRows =
     [withUser (sampleRow\<lparr> status := Approved \<rparr>) None None, withUser paidRow None None]"

text \<open>A row as \<open>createApplication\<close> inserts it.\<close>

definition freshRow :: "Application \<Rightarrow> bool" where
  "freshRow a = (status a = Pending \<and> reviewedBy a = None \<and> reviewedAt a = None \<and>
                 paidAt a = None \<and> paidAmount a = None)"

text \<open>What the database accepts of an admin update: the reviewer, the notes, the amount.\<close>

definition accepted ::
  "decimalColumn \<Rightarrow> string \<Rightarrow> status option \<Rightarrow> string maybe \<Rightarrow> Application \<Rightarrow> bool" where
  "accepted decimal adminUserId st notes existingApp =
     (pgText adminUserId \<and> pgMaybe notes \<and>
      (st = Some Paid \<longrightarrow> decimal (amountRequested existingApp) \<noteq> None))"

section \<open>Facts about the building blocks\<close>


lemma includesStr_empty: "includesStr s []"
  by (cases s) simp_all

lemma statusName_approved: "(statusName a = ''approved'') = (a = Approved)"
  by (cases a) simp_all

lemma updateData_fields:
  "status_upd (updateData t1 t2 adm st notes e) = st"
  "adminNotes_upd (updateData t1 t2 adm st notes e) = notes"
  "reviewedBy_upd (updateData t1 t2 adm st notes e) = Val adm"
  "reviewedAt_upd (updateData t1 t2 adm st notes e) = Val t1"
  "paidAt_upd (updateData t1 t2 adm st notes e) = (if st = Some Paid then Val t2 else Undefined)"
  "paidAmount_upd (updateData t1 t2 adm st notes e) =
     (if st = Some Paid then Val (amountRequested e) else Undefined)"
  by (cases st; simp add: updateData_def noFields_def Let_def)+

lemma columnValues_updateData:
  "columnValues decimal (updateData t1 t2 adm st notes e) =
     (if \<not> accepted decimal adm st notes e then None
      else if st = Some Paid
      then map_option (\<lambda>v. (updateData t1 t2 adm st notes e)\<lparr> paidAmount_upd := Val v \<rparr>)
             (decimal (amountRequested e))
      else Some (updateData t1 t2 adm st notes e))"
  by (auto simp: columnValues_def accepted_def updateData_fields split: option.splits)

lemma written_fields:
  assumes "columnValues decimal (updateData t1 t2 adm st notes e) = Some w"
  shows "status_upd w = st"
    and "adminNotes_upd w = notes"
    and "reviewedBy_upd w = Val adm"
    and "reviewedAt_upd w = Val t1"
    and "paidAt_upd w = (if st = Some Paid then Val t2 else Undefined)"
    and "st \<noteq> Some Paid \<Longrightarrow> paidAmount_upd w = Undefined"
    and "st = Some Paid \<Longrightarrow> \<exists>v. decimal (amountRequested e) = Some v \<and> paidAmount_upd w = Val v"
    and "accepted decimal adm st notes e"
  using assms
  by (auto simp: columnValues_updateData updateData_fields split: if_splits)

lemma applyUpdate_fields:
  "status (applyUpdate t d a) = (case status_upd d of None \<Rightarrow> status a | Some v \<Rightarrow> v)"
  "reviewedBy (applyUpdate t d a) = assign (reviewedBy_upd d) (reviewedBy a)"
  "reviewedAt (applyUpdate t d a) = assign (reviewedAt_upd d) (reviewedAt a)"
  "paidAt (applyUpdate t d a) = assign (paidAt_upd d) (paidAt a)"
  "paidAmount (applyUpdate t d a) = assign (paidAmount_upd d) (paidAmount a)"
  "amountRequested (applyUpdate t d a) = amountRequested a"
  "id_app (applyUpdate t d a) = id_app a"
  by (simp_all add: applyUpdate_def)

lemma frame_applyUpdate: "frame (applyUpdate now d a) = frame a"
  by (simp add: frame_def applyUpdate_def)

lemma frame_updateApplication:
  "map frame (applications (after s (updateApplication decimal now i d s))) =
     map frame (applications s)"
  by (simp add: updateApplication_def after_def Let_def frame_applyUpdate
      split: option.splits cong: map_cong)

lemma find_map_update:
  "find (\<lambda>a. id_app a = i) xs = Some e \<Longrightarrow>
   find (\<lambda>a. id_app a = i) (map (\<lambda>a. if id_app a = i then applyUpdate t d a else a) xs) =
     Some (applyUpdate t d e)"
  by (induction xs) (auto simp: applyUpdate_fields split: if_splits)

text \<open>The admin update, case by case.\<close>

lemma patch_existing:
  assumes "getApplicationById i s = Some e"
    and "updateApplicationSchema body = Some (st, notes)"
  shows "patch_admin_application decimal t1 t2 t3 adm i body s =
     (case columnValues decimal (updateData t1 t2 adm st notes e) of
        None \<Rightarrow> ((500, PMessage ''Failed to update application''), s)
      | Some w \<Rightarrow>
          ((200, PApplication (applyUpdate t3 w e)),
           s\<lparr> applications :=
                map (\<lambda>a. if id_app a = i then applyUpdate t3 w a else a) (applications s) \<rparr>))"
  using assms find_map_update [of i "applications s" e]
  by (simp add: patch_admin_application_def updateApplication_def getApplicationById_def Let_def
      split: option.splits)

lemma patch_applications:
  "applications (snd (patch_admin_application decimal t1 t2 t3 adm i body s)) = applications s \<or>
   (\<exists>st notes e w.
      columnValues decimal (updateData t1 t2 adm st notes e) = Some w \<and>
      applications (snd (patch_admin_application decimal t1 t2 t3 adm i body s)) =
        map (\<lambda>a. if id_app a = i then applyUpdate t3 w a else a) (applications s))"
proof (cases "updateApplicationSchema body")
  case None
  then show ?thesis by (simp add: patch_admin_application_def)
next
  case (Some p)
  obtain st nt where p: "p = (st, nt)" by (cases p)
  show ?thesis
  proof (cases "getApplicationById i s")
    case None
    with Some show ?thesis by (simp add: patch_admin_application_def p)
  next
    case e: (Some e)
    from Some p have u: "updateApplicationSchema body = Some (st, nt)" by simp
    show ?thesis
      using patch_existing [OF e u, of decimal t1 t2 t3 adm]
      by (cases "columnValues decimal (updateData t1 t2 adm st nt e)") auto
  qed
qed

lemma post_bank_details_applications:
  "applications (snd (post_bank_details newId now uid body s)) = applications s"
  by (auto simp: post_bank_details_def createBankDetails_def Let_def split: option.splits)

lemma delete_bank_details_applications:
  "applications (snd (delete_bank_details uid i s)) = applications s"
  by (auto simp: delete_bank_details_def deleteBankDetails_def Let_def split: option.splits)

lemma createApplication_rows:
  "createApplication decimal newId now uid r amt cur bid docs s = Some (a, s') \<Longrightarrow>
   freshRow a \<and> decimal amt = Some (amountRequested a) \<and>
   applications s' = applications s @ [a] \<and> bankDetails s' = bankDetails s"
  by (auto simp: createApplication_def freshRow_def Let_def split: if_splits option.splits)

lemma createBankDetails_rows:
  "createBankDetails newId now uid c bn an sc rn ahn s = Some (b, s') \<Longrightarrow>
   applications s' = applications s \<and> bankDetails s' = bankDetails s @ [b]"
  by (auto simp: createBankDetails_def Let_def split: if_splits)

lemma post_applications_rows:
  "applications (snd (post_applications positive decimal newBankId tBank newAppId tApp uid body s)) =
     applications s \<or>
   (\<exists>a amt. freshRow a \<and> decimal amt = Some (amountRequested a) \<and>
     applications (snd (post_applications positive decimal newBankId tBank newAppId tApp uid body s)) =
       applications s @ [a])"
  unfolding post_applications_def Let_def
  by (auto split: option.splits prod.splits maybe.splits
      dest!: createApplication_rows createBankDetails_rows)

text \<open>
  What every row of a reachable state satisfies: a paid row carries its payment, a row
  that is no longer pending carries its reviewer.
\<close>

lemma reachable_rows:
  assumes "reachable positive decimal s"
    and "a \<in> set (applications s)"
  shows "(status a = Paid \<longrightarrow> paidAt a \<noteq> None \<and> paidAmount a \<noteq> None) \<and>
         (status a \<noteq> Pending \<longrightarrow> reviewedBy a \<noteq> None \<and> reviewedAt a \<noteq> None)"
  using assms
proof (induction arbitrary: a rule: reachable.induct)
  case initial
  then show ?case by (simp add: emptyState_def)
next
  case (bank_created s newId now uid body)
  then show ?case by (simp add: post_bank_details_applications)
next
  case (bank_deleted s uid i)
  then show ?case by (simp add: delete_bank_details_applications)
next
  case (application_created s newBankId tBank newAppId tApp uid body)
  then show ?case
    using post_applications_rows [of positive decimal newBankId tBank newAppId tApp uid body s]
    by (auto simp: freshRow_def)
next
  case (application_updated s tReviewed tPaid tUpdated adminUserId i body)
  from patch_applications [of decimal tReviewed tPaid tUpdated adminUserId i body s]
  show ?case
  proof
    assume "applications
        (snd (patch_admin_application decimal tReviewed tPaid tUpdated adminUserId i body s)) =
       applications s"
    with application_updated show ?thesis by simp
  next
    assume "\<exists>st notes e w.
      columnValues decimal (updateData tReviewed tPaid adminUserId st notes e) = Some w \<and>
      applications
        (snd (patch_admin_application decimal tReviewed tPaid tUpdated adminUserId i body s)) =
        map (\<lambda>a. if id_app a = i then applyUpdate tUpdated w a else a) (applications s)"
    then obtain st nt e w
      where w: "columnValues decimal (updateData tReviewed tPaid adminUserId st nt e) = Some w"
        and rows: "applications
          (snd (patch_admin_application decimal tReviewed tPaid tUpdated adminUserId i body s)) =
          map (\<lambda>a. if id_app a = i then applyUpdate tUpdated w a else a) (applications s)"
      by blast
    from application_updated.prems rows obtain b
      where b: "b \<in> set (applications s)"
        and a: "a = (if id_app b = i then applyUpdate tUpdated w b else b)"
      by auto
    show ?thesis
    proof (cases "id_app b = i")
      case False
      with a b application_updated.IH show ?thesis by simp
    next
      case True
      with a have a': "a = applyUpdate tUpdated w b" by simp
      from application_updated.IH [OF b] written_fields [OF w] show ?thesis
        by (cases st) (auto simp: a' applyUpdate_fields)
    qed
  qed
qed

text \<open>
  The amount of every row of a reachable state is in the form of the decimal column,
  when the column returns its own form unchanged.
\<close>

lemma reachable_amounts:
  assumes idem: "\<And>x y. decimal x = Some y \<Longrightarrow> decimal y = Some y"
    and "reachable positive decimal s"
    and "a \<in> set (applications s)"
  shows "decimal (amountRequested a) = Some (amountRequested a)"
  using assms(2,3)
proof (induction arbitrary: a rule: reachable.induct)
  case initial
  then show ?case by (simp add: emptyState_def)
next
  case (bank_created s newId now uid body)
  then show ?case by (simp add: post_bank_details_applications)
next
  case (bank_deleted s uid i)
  then show ?case by (simp add: delete_bank_details_applications)
next
  case (application_created s newBankId tBank newAppId tApp uid body)
  then show ?case
    using post_applications_rows [of positive decimal newBankId tBank newAppId tApp uid body s]
    by (auto dest: idem)
next
  case (application_updated s tReviewed tPaid tUpdated adminUserId i body)
  then show ?case
    using patch_applications [of decimal tReviewed tPaid tUpdated adminUserId i body s]
    by (auto simp: applyUpdate_fields split: if_splits)
qed

lemma find_SomeD: "find P xs = Some x \<Longrightarrow> P x \<and> x \<in> set xs"
  by (induction xs) (auto split: if_splits)

lemma updateData_same:
  "st = Some Paid \<Longrightarrow>
   (updateData t1 t2 adm st notes e)\<lparr> paidAmount_upd := Val (amountRequested e) \<rparr> =
     updateData t1 t2 adm st notes e"
  by (simp add: updateData_def noFields_def Let_def)

subsection \<open>The sample requests, run\<close>

lemma sampleDecimal_idem: "sampleDecimal x = Some y \<Longrightarrow> sampleDecimal y = Some y"
  by (auto simp: sampleDecimal_def split: if_splits)

lemma created_eq: "created = \<lparr> applications = [sampleRow], bankDetails = [] \<rparr>"
  by (simp add: created_def post_applications_def applicationSubmitSchema_def
      applicationSchema_def field_def sampleApplication_def zStringMin_def zEnum_def
      sampleAmount_def sampleDecimal_def createApplication_def pgText_def emptyState_def
      sampleRow_def Let_def)

lemma statusBody_parses:
  "updateApplicationSchema (statusBody (statusName st)) = Some (Some st, Undefined)"
  by (cases st) (simp_all add: updateApplicationSchema_def statusBody_def field_def zStatus_def
      applicationStatusEnum_def)

lemma refusedBody_parses:
  "updateApplicationSchema (refusedBody (statusName st)) = Some (Some st, Val refusedNotes)"
  by (cases st) (simp_all add: updateApplicationSchema_def refusedBody_def field_def zStatus_def
      applicationStatusEnum_def)

lemma empty_body_parses: "updateApplicationSchema (JObj []) = Some (None, Undefined)"
  by (simp add: updateApplicationSchema_def field_def)

lemma forgedPaidBody_parses:
  "updateApplicationSchema forgedPaidBody = Some (Some Paid, Undefined)"
  by (simp add: forgedPaidBody_def updateApplicationSchema_def field_def zStatus_def
      applicationStatusEnum_def)

lemma getApplicationById_created: "getApplicationById ''a1'' created = Some sampleRow"
  by (simp add: getApplicationById_def created_eq sampleRow_def)

lemma paidState_rows: "paidState = \<lparr> applications = [paidRow], bankDetails = [] \<rparr>"
  using statusBody_parses [of Paid]
    patch_existing [OF getApplicationById_created, of "statusBody ''paid''" "Some Paid" Undefined
      sampleDecimal 2 3 4 "''admin''"]
  by (simp add: paidState_def columnValues_updateData accepted_def pgText_def sampleDecimal_def
      created_eq applyUpdate_def updateData_fields paidRow_def sampleRow_def)

lemma getApplicationById_paidState: "getApplicationById ''a1'' paidState = Some paidRow"
  by (simp add: getApplicationById_def paidState_rows paidRow_def sampleRow_def)


lemma reachable_created: "reachable sampleAmount sampleDecimal created"
  unfolding created_def by (rule reachable.application_created) (rule reachable.initial)

lemma reachable_paidState: "reachable sampleAmount sampleDecimal paidState"
  unfolding paidState_def by (rule reachable.application_updated) (rule reachable_created)

lemma statusSmuggled_run:
  "post_applications sampleAmount sampleDecimal ''b1'' 1 ''a1'' 1 ''alice'' statusSmuggledBody
     emptyState =
     ((200, PApplication sampleRow), \<lparr> applications = [sampleRow], bankDetails = [] \<rparr>)"
  by (simp add: statusSmuggledBody_def post_applications_def applicationSubmitSchema_def
      applicationSchema_def field_def sampleApplication_def zStringMin_def zEnum_def
      sampleAmount_def sampleDecimal_def createApplication_def pgText_def emptyState_def
      sampleRow_def Let_def)


text \<open>
  An empty \<open>bankDetailsId\<close> is read as none given: the application is created with no
  bank details.
\<close>

lemma emptyIdBody_run:
  "post_applications sampleAmount sampleDecimal ''b1'' 1 ''a1'' 1 ''alice'' emptyIdBody emptyState =
     ((200, PApplication sampleRow), \<lparr> applications = [sampleRow], bankDetails = [] \<rparr>)"
  by (simp add: emptyIdBody_def post_applications_def applicationSubmitSchema_def
      applicationSchema_def field_def sampleApplication_def zStringMin_def zEnum_def
      sampleAmount_def sampleDecimal_def createApplication_def pgText_def emptyState_def
      sampleRow_def Let_def)

section \<open>The claims\<close>

subsection \<open>C1: paid status and the payment fields\<close>

text \<open>
  Claim C1, as the code has it. In every state the routes can reach, an application whose
  status is \<open>paid\<close> has both \<open>paidAt\<close> and \<open>paidAmount\<close> set. The converse is not
  a property of the code: a later admin update may move a paid application to another
  status, and it leaves the two payment fields as they are.
\<close>

theorem paid_implies_payment_recorded:
  "reachable positive decimal s \<Longrightarrow> a \<in> set (applications s) \<Longrightarrow> status a = Paid \<Longrightarrow>
   paidAt a \<noteq> None \<and> paidAmount a \<noteq> None"
  using reachable_rows by blast

theorem paid_implies_payment_recorded_witness:
  "reachable sampleAmount sampleDecimal paidState \<and> paidRow \<in> set (applications paidState) \<and>
   status paidRow = Paid \<and> paidAt paidRow \<noteq> None \<and> paidAmount paidRow \<noteq> None"
proof -
  have r: "reachable sampleAmount sampleDecimal paidState" by (rule reachable_paidState)
  have m: "paidRow \<in> set (applications paidState)" by (simp add: paidState_rows)
  have p: "status paidRow = Paid" by (simp add: paidRow_def)
  from paid_implies_payment_recorded [OF r m p] r m p show ?thesis by simp
qed

text \<open>
  The equivalence of C1 fails: create an application, mark it paid, then set its status to
  \<open>approved\<close>. The state is reachable, the status is not \<open>paid\<close>, and both
  payment fields are still set.
\<close>

theorem payment_recorded_without_paid_status:
  "reachable sampleAmount sampleDecimal revertedState \<and>
   map status (applications revertedState) = [Approved] \<and>
   map paidAt (applications revertedState) = [Some 3] \<and>
   map paidAmount (applications revertedState) = [Some ''250.00'']"
proof -
  have "reachable sampleAmount sampleDecimal revertedState"
    unfolding revertedState_def
    by (rule reachable.application_updated) (rule reachable_paidState)
  moreover have "applications revertedState =
      [paidRow\<lparr> status := Approved, reviewedAt := Some 5, updatedAt := Some 7 \<rparr>]"
    using statusBody_parses [of Approved]
      patch_existing [OF getApplicationById_paidState, of "statusBody ''approved''"
        "Some Approved" Undefined sampleDecimal 5 6 7 "''admin''"]
    by (simp add: revertedState_def columnValues_updateData accepted_def pgText_def
        paidState_rows applyUpdate_def updateData_fields paidRow_def sampleRow_def)
  ultimately show ?thesis by (simp add: paidRow_def sampleRow_def)
qed

subsection \<open>C2: the reviewer's stamp\<close>

text \<open>
  Claim C2, as the code has it. In every state the routes can reach, an application whose
  status is not \<open>pending\<close> has both \<open>reviewedBy\<close> and \<open>reviewedAt\<close> set. The
  converse is not a property of the code: every admin update stamps the reviewer, also one
  that names no status or names \<open>pending\<close>.
\<close>

theorem left_pending_implies_reviewed:
  "reachable positive decimal s \<Longrightarrow> a \<in> set (applications s) \<Longrightarrow> status a \<noteq> Pending \<Longrightarrow>
   reviewedBy a \<noteq> None \<and> reviewedAt a \<noteq> None"
  using reachable_rows by blast

theorem left_pending_implies_reviewed_witness:
  "reachable sampleAmount sampleDecimal paidState \<and> paidRow \<in> set (applications paidState) \<and>
   status paidRow \<noteq> Pending \<and> reviewedBy paidRow \<noteq> None \<and> reviewedAt paidRow \<noteq> None"
proof -
  have r: "reachable sampleAmount sampleDecimal paidState" by (rule reachable_paidState)
  have m: "paidRow \<in> set (applications paidState)" by (simp add: paidState_rows)
  have p: "status paidRow \<noteq> Pending" by (simp add: paidRow_def)
  from left_pending_implies_reviewed [OF r m p] r m p show ?thesis by simp
qed

text \<open>
  The equivalence of C2 fails: an admin update with the empty body on a new application
  leaves the status \<open>pending\<close> and sets both reviewer fields.
\<close>

theorem reviewed_while_pending:
  "reachable sampleAmount sampleDecimal stampedState \<and>
   map status (applications stampedState) = [Pending] \<and>
   map reviewedBy (applications stampedState) = [Some ''admin''] \<and>
   map reviewedAt (applications stampedState) = [Some 2]"
proof -
  have "reachable sampleAmount sampleDecimal stampedState"
    unfolding stampedState_def
    by (rule reachable.application_updated) (rule reachable_created)
  moreover have "applications stampedState =
      [sampleRow\<lparr> reviewedBy := Some ''admin'', reviewedAt := Some 2, updatedAt := Some 4 \<rparr>]"
    using patch_existing [OF getApplicationById_created empty_body_parses,
        of sampleDecimal 2 3 4 "''admin''"]
    by (simp add: stampedState_def columnValues_updateData accepted_def pgText_def
        created_eq applyUpdate_def updateData_fields sampleRow_def)
  ultimately show ?thesis by (simp add: sampleRow_def)
qed

subsection \<open>C3: the transition table\<close>

text \<open>
  Claim C3, as the code has it. The admin update does not consult the transition table.
  For every existing application and every status that the request names, whatever the
  current status: when the database accepts the values written (the reviewer and the notes
  hold no code unit 0 and, for the status \<open>paid\<close>, the decimal column takes the
  requested amount), the route answers 200 with the updated application and the requested
  status is the one stored; when it does not, the route answers 500 and the state is
  unchanged. The current status decides nothing.
\<close>

theorem admin_update_writes_any_status:
  assumes "getApplicationById i s = Some e"
    and "updateApplicationSchema body = Some (Some st, notes)"
  shows "(accepted decimal adm (Some st) notes e \<longrightarrow>
            (\<exists>a. patch_admin_application decimal t1 t2 t3 adm i body s =
                    ((200, PApplication a),
                     snd (patch_admin_application decimal t1 t2 t3 adm i body s)) \<and>
                  status a = st \<and>
                  getApplicationById i
                    (snd (patch_admin_application decimal t1 t2 t3 adm i body s)) = Some a)) \<and>
         (\<not> accepted decimal adm (Some st) notes e \<longrightarrow>
            patch_admin_application decimal t1 t2 t3 adm i body s =
              ((500, PMessage ''Failed to update application''), s))"
proof (intro conjI impI)
  assume acc: "accepted decimal adm (Some st) notes e"
  then obtain w where w: "columnValues decimal (updateData t1 t2 adm (Some st) notes e) = Some w"
    by (cases "st = Paid") (auto simp: columnValues_updateData accepted_def)
  have run: "patch_admin_application decimal t1 t2 t3 adm i body s =
      ((200, PApplication (applyUpdate t3 w e)),
       s\<lparr> applications :=
            map (\<lambda>a. if id_app a = i then applyUpdate t3 w a else a) (applications s) \<rparr>)"
    using patch_existing [OF assms, of decimal t1 t2 t3 adm] w by simp
  have "status (applyUpdate t3 w e) = st"
    using written_fields(1) [OF w] by (simp add: applyUpdate_fields)
  moreover have "getApplicationById i
      (snd (patch_admin_application decimal t1 t2 t3 adm i body s)) = Some (applyUpdate t3 w e)"
    using assms(1) find_map_update [of i "applications s" e t3 w]
    by (simp add: run getApplicationById_def)
  ultimately show "\<exists>a. patch_admin_application decimal t1 t2 t3 adm i body s =
                    ((200, PApplication a),
                     snd (patch_admin_application decimal t1 t2 t3 adm i body s)) \<and>
                  status a = st \<and>
                  getApplicationById i
                    (snd (patch_admin_application decimal t1 t2 t3 adm i body s)) = Some a"
    using run by simp
next
  assume "\<not> accepted decimal adm (Some st) notes e"
  then show "patch_admin_application decimal t1 t2 t3 adm i body s =
      ((500, PMessage ''Failed to update application''), s)"
    using patch_existing [OF assms, of decimal t1 t2 t3 adm]
    by (simp add: columnValues_updateData)
qed

text \<open>
  A paid application set back to \<open>pending\<close>: accepted and written. The same request
  with notes that hold code unit 0: answered 500, nothing written.
\<close>

theorem admin_update_writes_any_status_witness:
  "getApplicationById ''a1'' paidState = Some paidRow \<and>
   updateApplicationSchema (statusBody ''pending'') = Some (Some Pending, Undefined) \<and>
   accepted sampleDecimal ''admin'' (Some Pending) Undefined paidRow \<and>
   (\<exists>a. patch_admin_application sampleDecimal 5 6 7 ''admin'' ''a1'' (statusBody ''pending'')
           paidState =
           ((200, PApplication a),
            snd (patch_admin_application sampleDecimal 5 6 7 ''admin'' ''a1''
                   (statusBody ''pending'') paidState)) \<and>
         status a = Pending \<and>
         getApplicationById ''a1''
           (snd (patch_admin_application sampleDecimal 5 6 7 ''admin'' ''a1''
                   (statusBody ''pending'') paidState)) = Some a) \<and>
   updateApplicationSchema (refusedBody ''pending'') = Some (Some Pending, Val refusedNotes) \<and>
   \<not> accepted sampleDecimal ''admin'' (Some Pending) (Val refusedNotes) paidRow \<and>
   patch_admin_application sampleDecimal 5 6 7 ''admin'' ''a1'' (refusedBody ''pending'')
     paidState = ((500, PMessage ''Failed to update application''), paidState)"
proof -
  have g: "getApplicationById ''a1'' paidState = Some paidRow"
    by (rule getApplicationById_paidState)
  have u: "updateApplicationSchema (statusBody ''pending'') = Some (Some Pending, Undefined)"
    using statusBody_parses [of Pending] by simp
  have a: "accepted sampleDecimal ''admin'' (Some Pending) Undefined paidRow"
    by (simp add: accepted_def pgText_def)
  have v: "updateApplicationSchema (refusedBody ''pending'') =
      Some (Some Pending, Val refusedNotes)"
    using refusedBody_parses [of Pending] by simp
  have n: "\<not> accepted sampleDecimal ''admin'' (Some Pending) (Val refusedNotes) paidRow"
    by (simp add: accepted_def pgText_def refusedNotes_def)
  from admin_update_writes_any_status [OF g u, of sampleDecimal "''admin''" 5 6 7]
    admin_update_writes_any_status [OF g v, of sampleDecimal "''admin''" 5 6 7] g u a v n
  show ?thesis by blast
qed

text \<open>
  The rejection that C3 states does not happen: the pair (\<open>paid\<close>, \<open>pending\<close>) is no
  row of the table, and the update of a paid application to \<open>pending\<close> is answered
  with 200 and written.
\<close>

theorem transition_outside_table_accepted:
  "map status (applications paidState) = [Paid] \<and>
   (Paid, Pending) \<notin> set transitionTable \<and>
   fst (fst (patch_admin_application sampleDecimal 5 6 7 ''admin'' ''a1'' (statusBody ''pending'')
               paidState)) = 200 \<and>
   map status (applications
     (snd (patch_admin_application sampleDecimal 5 6 7 ''admin'' ''a1'' (statusBody ''pending'')
             paidState))) = [Pending]"
  using statusBody_parses [of Pending]
    patch_existing [OF getApplicationById_paidState, of "statusBody ''pending''"
      "Some Pending" Undefined sampleDecimal 5 6 7 "''admin''"]
  by (simp add: columnValues_updateData accepted_def pgText_def transitionTable_def
      paidState_rows applyUpdate_def updateData_fields paidRow_def sampleRow_def)

subsection \<open>C4: marking an application paid\<close>

text \<open>
  Claim C4. Take a decimal column that returns its own form unchanged, a state the routes
  can reach, an application that exists in it and a request the schema accepts. When the
  reviewer and the notes hold no code unit 0, the admin update answers 200 with the
  updated application, whose requested amount is unchanged: if the request names the status
  \<open>paid\<close>, \<open>paidAt\<close> is the clock reading the route takes for it and \<open>paidAmount\<close>
  is the amount the application requested; if it does not, both payment fields stay as
  they were. Otherwise the database refuses the update, the route answers 500 and the
  state is unchanged. So no request sets \<open>paidAmount\<close> to anything but the requested
  amount.
\<close>

theorem mark_paid_snapshots_amount:
  assumes idem: "\<And>x y. decimal x = Some y \<Longrightarrow> decimal y = Some y"
    and reach: "reachable positive decimal s"
    and found: "getApplicationById i s = Some e"
    and parsed: "updateApplicationSchema body = Some (st, notes)"
  shows "(pgText adm \<and> pgMaybe notes \<longrightarrow>
            (\<exists>a. patch_admin_application decimal tReviewed tPaid tUpdated adm i body s =
                    ((200, PApplication a),
                     snd (patch_admin_application decimal tReviewed tPaid tUpdated adm i body s)) \<and>
                  getApplicationById i
                    (snd (patch_admin_application decimal tReviewed tPaid tUpdated adm i body s)) =
                    Some a \<and>
                  amountRequested a = amountRequested e \<and>
                  (st = Some Paid \<longrightarrow>
                     paidAt a = Some tPaid \<and> paidAmount a = Some (amountRequested e)) \<and>
                  (st \<noteq> Some Paid \<longrightarrow> paidAt a = paidAt e \<and> paidAmount a = paidAmount e))) \<and>
         (\<not> (pgText adm \<and> pgMaybe notes) \<longrightarrow>
            patch_admin_application decimal tReviewed tPaid tUpdated adm i body s =
              ((500, PMessage ''Failed to update application''), s))"
proof -
  from found have "e \<in> set (applications s)"
    by (auto simp: getApplicationById_def dest: find_SomeD)
  with idem reach have canon: "decimal (amountRequested e) = Some (amountRequested e)"
    by (rule reachable_amounts)
  then have acc: "accepted decimal adm st notes e = (pgText adm \<and> pgMaybe notes)"
    by (simp add: accepted_def)
  show ?thesis
  proof (intro conjI impI)
    assume ok: "pgText adm \<and> pgMaybe notes"
    define w where "w = updateData tReviewed tPaid adm st notes e"
    have w: "columnValues decimal (updateData tReviewed tPaid adm st notes e) = Some w"
    proof (cases "st = Some Paid")
      case True
      with ok acc canon show ?thesis
        by (simp add: columnValues_updateData w_def updateData_same)
    next
      case False
      with ok acc show ?thesis by (simp add: columnValues_updateData w_def)
    qed
    have run: "patch_admin_application decimal tReviewed tPaid tUpdated adm i body s =
        ((200, PApplication (applyUpdate tUpdated w e)),
         s\<lparr> applications :=
              map (\<lambda>a. if id_app a = i then applyUpdate tUpdated w a else a) (applications s) \<rparr>)"
      using patch_existing [OF found parsed, of decimal tReviewed tPaid tUpdated adm] w by simp
    have stored: "getApplicationById i
        (snd (patch_admin_application decimal tReviewed tPaid tUpdated adm i body s)) =
        Some (applyUpdate tUpdated w e)"
      using found find_map_update [of i "applications s" e tUpdated w]
      by (simp add: run getApplicationById_def)
    have fields: "amountRequested (applyUpdate tUpdated w e) = amountRequested e \<and>
        (st = Some Paid \<longrightarrow>
           paidAt (applyUpdate tUpdated w e) = Some tPaid \<and>
           paidAmount (applyUpdate tUpdated w e) = Some (amountRequested e)) \<and>
        (st \<noteq> Some Paid \<longrightarrow>
           paidAt (applyUpdate tUpdated w e) = paidAt e \<and>
           paidAmount (applyUpdate tUpdated w e) = paidAmount e)"
      by (simp add: applyUpdate_fields w_def updateData_fields)
    from run stored fields
    show "\<exists>a. patch_admin_application decimal tReviewed tPaid tUpdated adm i body s =
                    ((200, PApplication a),
                     snd (patch_admin_application decimal tReviewed tPaid tUpdated adm i body s)) \<and>
                  getApplicationById i
                    (snd (patch_admin_application decimal tReviewed tPaid tUpdated adm i body s)) =
                    Some a \<and>
                  amountRequested a = amountRequested e \<and>
                  (st = Some Paid \<longrightarrow>
                     paidAt a = Some tPaid \<and> paidAmount a = Some (amountRequested e)) \<and>
                  (st \<noteq> Some Paid \<longrightarrow> paidAt a = paidAt e \<and> paidAmount a = paidAmount e)"
      by simp
  next
    assume "\<not> (pgText adm \<and> pgMaybe notes)"
    with acc show "patch_admin_application decimal tReviewed tPaid tUpdated adm i body s =
        ((500, PMessage ''Failed to update application''), s)"
      using patch_existing [OF found parsed, of decimal tReviewed tPaid tUpdated adm]
      by (simp add: columnValues_updateData)
  qed
qed

text \<open>
  At the sample application (250.00 GBP), with a request that names the status \<open>paid\<close>
  and an amount of its own: the amount of the request is ignored. With notes that hold
  code unit 0 the update is refused and the application stays as it was.
\<close>

theorem mark_paid_snapshots_amount_witness:
  "reachable sampleAmount sampleDecimal created \<and>
   getApplicationById ''a1'' created = Some sampleRow \<and>
   updateApplicationSchema forgedPaidBody = Some (Some Paid, Undefined) \<and>
   pgText ''admin'' \<and> pgMaybe Undefined \<and>
   (\<exists>a. patch_admin_application sampleDecimal 2 3 4 ''admin'' ''a1'' forgedPaidBody created =
           ((200, PApplication a),
            snd (patch_admin_application sampleDecimal 2 3 4 ''admin'' ''a1'' forgedPaidBody
                   created)) \<and>
         getApplicationById ''a1''
           (snd (patch_admin_application sampleDecimal 2 3 4 ''admin'' ''a1'' forgedPaidBody
                   created)) = Some a \<and>
         amountRequested a = ''250.00'' \<and> paidAt a = Some 3 \<and> paidAmount a = Some ''250.00'') \<and>
   updateApplicationSchema (refusedBody ''paid'') = Some (Some Paid, Val refusedNotes) \<and>
   \<not> (pgText ''admin'' \<and> pgMaybe (Val refusedNotes)) \<and>
   patch_admin_application sampleDecimal 2 3 4 ''admin'' ''a1'' (refusedBody ''paid'') created =
     ((500, PMessage ''Failed to update application''), created)"
proof -
  have r: "reachable sampleAmount sampleDecimal created" by (rule reachable_created)
  have g: "getApplicationById ''a1'' created = Some sampleRow"
    by (rule getApplicationById_created)
  have u: "updateApplicationSchema forgedPaidBody = Some (Some Paid, Undefined)"
    by (rule forgedPaidBody_parses)
  have t: "pgText ''admin'' \<and> pgMaybe Undefined" by (simp add: pgText_def)
  have v: "amountRequested sampleRow = ''250.00''" by (simp add: sampleRow_def)
  have p: "updateApplicationSchema (refusedBody ''paid'') = Some (Some Paid, Val refusedNotes)"
    using refusedBody_parses [of Paid] by simp
  have n: "\<not> (pgText ''admin'' \<and> pgMaybe (Val refusedNotes))"
    by (simp add: pgText_def refusedNotes_def)
  from mark_paid_snapshots_amount [OF sampleDecimal_idem r g u,
      where adm = "''admin''" and tReviewed = 2 and tPaid = 3 and tUpdated = 4]
    mark_paid_snapshots_amount [OF sampleDecimal_idem r g p,
      where adm = "''admin''" and tReviewed = 2 and tPaid = 3 and tUpdated = 4]
    r g u t v p n
  show ?thesis by simp
qed

subsection \<open>C5: the initial status\<close>

text \<open>
  Claim C5. Whenever \<^verbatim>\<open>POST /api/applications\<close> succeeds, whatever the body, the
  application it answers with has the status \<open>pending\<close>, and it is the one row added
  to the table.
\<close>

theorem created_application_is_pending:
  assumes "post_applications positive decimal newBankId tBank newAppId tApp uid body s =
             ((200, PApplication a), s')"
  shows "status a = Pending \<and> applications s' = applications s @ [a]"
  using assms
  unfolding post_applications_def Let_def
  by (auto split: option.splits prod.splits maybe.splits if_splits
      dest!: createApplication_rows createBankDetails_rows simp: freshRow_def)

theorem created_application_is_pending_witness:
  "post_applications sampleAmount sampleDecimal ''b1'' 1 ''a1'' 1 ''alice'' statusSmuggledBody
     emptyState =
     ((200, PApplication sampleRow), \<lparr> applications = [sampleRow], bankDetails = [] \<rparr>) \<and>
   status sampleRow = Pending \<and>
   applications \<lparr> applications = [sampleRow], bankDetails = [] \<rparr> =
     applications emptyState @ [sampleRow]"
  using created_application_is_pending [OF statusSmuggled_run] statusSmuggled_run by simp

subsection \<open>C6: a British account with no sort code\<close>

text \<open>
  Claim C6 at the request of a British account with no sort code. The schema of the
  application page refuses the form. The schema of the route does not look at the country:
  \<^verbatim>\<open>POST /api/bank-details\<close> answers 200 and the row is in the table, its sort code null.
\<close>

theorem uk_account_without_sort_code_persisted:
  "post_bank_details ''b1'' 1 ''alice'' ukBody emptyState =
     ((200, PBankDetails sampleBank), \<lparr> applications = [], bankDetails = [sampleBank] \<rparr>) \<and>
   country_bd sampleBank = UK \<and> sortCode sampleBank = None \<and>
   \<not> applyBankDetailsSchema ukBody"
  by (simp add: ukBody_def post_bank_details_def bankDetailsSchema_def field_def
      zCountry_def countryEnum_def zStringMin_def createBankDetails_def pgText_def
      emptyState_def sampleBank_def Let_def applyBankDetailsSchema_def zEnum_def
      applyBankRefine_def)

subsection \<open>C7: deleting bank details\<close>



subsection \<open>C8: the filter and the counter of the dashboard\<close>

text \<open>
  Claim C8. With the status filter \<open>approved\<close> and the empty search text, the filter of
  the admin dashboard keeps exactly the applications whose status is \<open>approved\<close>; the
  counter shown as Approved / Paid counts those whose status is \<open>approved\<close> or
  \<open>paid\<close>.
\<close>

theorem dashboard_filter_and_counter:
  "filteredApplications (Some apps) [] ''approved'' =
     Some (filter (\<lambda>a. status a = Approved) apps) \<and>
   approved (stats (Some apps)) =
     length (filter (\<lambda>a. status a = Approved \<or> status a = Paid) apps)"
  by (simp add: filteredApplications_def matchesSearch_def matchesStatus_def toLowerCase_def
      includesStr_empty statusName_approved stats_def countWhere_def)

text \<open>One approved and one paid application: the filter keeps one row, the counter says two.\<close>

theorem dashboard_filter_and_counter_witness:
  "filteredApplications (Some dashboardRows) [] ''approved'' =
     Some [withUser (sampleRow\<lparr> status := Approved \<rparr>) None None] \<and>
   approved (stats (Some dashboardRows)) = 2"
  using dashboard_filter_and_counter [of dashboardRows]
  by (simp add: dashboardRows_def withUser_def paidRow_def sampleRow_def Application.defs)

subsection \<open>C9: what an update leaves alone\<close>

text \<open>
  Claim C9. For every call of \<open>updateApplication\<close>, whatever the update object holds,
  and for every \<^verbatim>\<open>PATCH /api/admin/applications/:id\<close>, each row of the table keeps its
  id, owner, reason, requested amount, currency, bank details reference, supporting
  documents and creation time, and the bank details table is unchanged.
\<close>

theorem update_preserves_frame:
  "map frame (applications (after s (updateApplication decimal now i d s))) =
     map frame (applications s) \<and>
   bankDetails (after s (updateApplication decimal now i d s)) = bankDetails s \<and>
   map frame
     (applications
        (snd (patch_admin_application decimal tReviewed tPaid tUpdated adminUserId i body s))) =
     map frame (applications s) \<and>
   bankDetails
     (snd (patch_admin_application decimal tReviewed tPaid tUpdated adminUserId i body s)) =
     bankDetails s"
proof (intro conjI)
  show "map frame (applications (after s (updateApplication decimal now i d s))) =
      map frame (applications s)"
    by (rule frame_updateApplication)
  show "bankDetails (after s (updateApplication decimal now i d s)) = bankDetails s"
    by (simp add: updateApplication_def after_def Let_def split: option.splits)
  show "map frame
     (applications
        (snd (patch_admin_application decimal tReviewed tPaid tUpdated adminUserId i body s))) =
     map frame (applications s)"
    using patch_applications [of decimal tReviewed tPaid tUpdated adminUserId i body s]
    by (auto simp: frame_applyUpdate cong: map_cong)
  show "bankDetails
     (snd (patch_admin_application decimal tReviewed tPaid tUpdated adminUserId i body s)) =
     bankDetails s"
    by (auto simp: patch_admin_application_def updateApplication_def Let_def
        split: option.splits prod.splits)
qed

text \<open>An update object that names another owner changes the status and not the owner.\<close>

theorem update_preserves_frame_witness:
  "map frame
     (applications (after created (updateApplication sampleDecimal 4 ''a1'' hostileUpdate created))) =
     map frame (applications created) \<and>
   map userId
     (applications (after created (updateApplication sampleDecimal 4 ''a1'' hostileUpdate created))) =
     [''alice''] \<and>
   map status
     (applications (after created (updateApplication sampleDecimal 4 ''a1'' hostileUpdate created))) =
     [Paid]"
proof -
  from update_preserves_frame [of created sampleDecimal 4 "''a1''" hostileUpdate]
  have f: "map frame
      (applications (after created (updateApplication sampleDecimal 4 ''a1'' hostileUpdate created))) =
     map frame (applications created)"
    by blast
  have r: "applications
      (after created (updateApplication sampleDecimal 4 ''a1'' hostileUpdate created)) =
      [sampleRow\<lparr> updatedAt := Some 4, status := Paid \<rparr>]"
    by (simp add: updateApplication_def after_def columnValues_def created_eq applyUpdate_def
        hostileUpdate_def noFields_def sampleRow_def Let_def)
  from f r show ?thesis by (simp add: sampleRow_def)
qed

subsection \<open>C10: bank details of another user\<close>



end
